theory Spec2Isabelle
  imports Main
begin

section \<open>JavaScript values as the handlers see them\<close>

text \<open>
  The three server files (\<^verbatim>\<open>src/server.js\<close>, the resources API;
  \<^verbatim>\<open>src/unnamed/part_000\<close> and \<^verbatim>\<open>src/unnamed/part_001\<close>, two variants of the users
  API) read request fields that are JavaScript values produced by the JSON body parser and the
  query-string parser. A value that may be \<^verbatim>\<open>undefined\<close> is a \<open>json option\<close>, with
  \<open>None\<close> for \<^verbatim>\<open>undefined\<close>.

  A \<open>string\<close> is a list of code units below 256 (ASCII and Latin-1), so the accented
  letters of the messages are written by code. \<open>JNum n\<close> is the JSON number \<open>n\<close>; it is
  printed in plain decimal, as JavaScript prints an integral number of magnitude below
  \<open>10^21\<close>. \<open>JObj\<close> lists the own properties of a parsed object.
\<close>

datatype json =
    JNull
  | JBool bool
  | JNum int
  | JStr string
  | JArr "json list"
  | JObj "(string \<times> json) list"

type_synonym jsval = "json option"

text \<open>
  The numbers \<^verbatim>\<open>parseInt\<close> can return: \<^verbatim>\<open>NaN\<close>, an integral double, or an infinity.
\<close>

datatype number = NaN | Fin int | PosInf | NegInf

text \<open>What a \<^verbatim>\<open>catch\<close> clause can receive: a \<^verbatim>\<open>TypeError\<close> of the language, or the
  error a rejected driver call carries (\<open>message\<close> is \<^verbatim>\<open>err.message\<close>).\<close>

datatype exn = TypeError | QueryError (message: string)

subsection \<open>Truthiness, \<^verbatim>\<open>??\<close>, property access\<close>

fun truthy :: "jsval \<Rightarrow> bool" where
  "truthy None = False"
| "truthy (Some JNull) = False"
| "truthy (Some (JBool b)) = b"
| "truthy (Some (JNum n)) = (n \<noteq> 0)"
| "truthy (Some (JStr s)) = (s \<noteq> [])"
| "truthy (Some (JArr xs)) = True"
| "truthy (Some (JObj kvs)) = True"

definition nullish :: "jsval \<Rightarrow> bool" where
  "nullish v = (v = None \<or> v = Some JNull)"

text \<open>\<^verbatim>\<open>a ?? b\<close>\<close>

definition coalesce :: "jsval \<Rightarrow> jsval \<Rightarrow> jsval" where
  "coalesce a b = (if nullish a then b else a)"

text \<open>\<^verbatim>\<open>v.k\<close> for a key that no prototype defines (\<^verbatim>\<open>id\<close>, \<^verbatim>\<open>name\<close>, \<^verbatim>\<open>title\<close>, ...):
  an own property of an object, \<^verbatim>\<open>undefined\<close> on anything else that is not nullish.\<close>

fun getProp :: "json \<Rightarrow> string \<Rightarrow> jsval" where
  "getProp (JObj kvs) k = map_of kvs k"
| "getProp _ k = None"

text \<open>\<^verbatim>\<open>v?.k\<close>\<close>

definition optProp :: "jsval \<Rightarrow> string \<Rightarrow> jsval" where
  "optProp v k = (case v of None \<Rightarrow> None | Some JNull \<Rightarrow> None | Some obj \<Rightarrow> getProp obj k)"

subsection \<open>Strings: \<^verbatim>\<open>trim\<close> and \<^verbatim>\<open>ToString\<close>\<close>

text \<open>White space and line terminators among the code units below 256:
  TAB, LF, VT, FF, CR, SP and NBSP.\<close>

definition isWhiteSpace :: "char \<Rightarrow> bool" where
  "isWhiteSpace c = (of_char c \<in> {9, 10, 11, 12, 13, 32, 160 :: nat})"

definition trimStart :: "string \<Rightarrow> string" where
  "trimStart s = dropWhile isWhiteSpace s"

definition trim :: "string \<Rightarrow> string" where
  "trim s = rev (dropWhile isWhiteSpace (rev (dropWhile isWhiteSpace s)))"

definition digitChar :: "nat \<Rightarrow> char" where
  "digitChar d = ''0123456789'' ! d"

fun showNat :: "nat \<Rightarrow> string" where
  "showNat n = (if n < 10 then [digitChar n] else showNat (n div 10) @ [digitChar (n mod 10)])"

definition showInt :: "int \<Rightarrow> string" where
  "showInt i = (if i < 0 then CHR ''-'' # showNat (nat (- i)) else showNat (nat i))"

text \<open>
  \<^verbatim>\<open>ToString\<close> of a parsed JSON value. An array is the join of its elements with commas,
  \<^verbatim>\<open>null\<close> elements printing as nothing. An object prints as \<^verbatim>\<open>[object Object]\<close>
  through \<^verbatim>\<open>Object.prototype.toString\<close>, unless it has an own property \<^verbatim>\<open>toString\<close>:
  that property is data, not a function, \<^verbatim>\<open>valueOf\<close> does not give a primitive either, and
  the conversion throws a \<^verbatim>\<open>TypeError\<close>.
\<close>

fun ToString :: "json \<Rightarrow> exn + string"
  and join :: "json list \<Rightarrow> exn + string" where
  "ToString JNull = Inr ''null''"
| "ToString (JBool b) = Inr (if b then ''true'' else ''false'')"
| "ToString (JNum n) = Inr (showInt n)"
| "ToString (JStr s) = Inr s"
| "ToString (JArr xs) = join xs"
| "ToString (JObj kvs) =
     (if ''toString'' \<in> set (map fst kvs) then Inl TypeError else Inr ''[object Object]'')"
| "join [] = Inr []"
| "join (x # xs) =
     (case (if x = JNull then Inr [] else ToString x) of
        Inl e \<Rightarrow> Inl e
      | Inr s \<Rightarrow>
          (if xs = [] then Inr s
           else (case join xs of Inl e \<Rightarrow> Inl e | Inr t \<Rightarrow> Inr (s @ '','' @ t))))"

subsection \<open>\<^verbatim>\<open>parseInt(v, 10)\<close>, \<^verbatim>\<open>Number.isInteger\<close>, \<^verbatim>\<open>Number.isNaN\<close>\<close>

definition isDigit :: "char \<Rightarrow> bool" where
  "isDigit c = (c \<in> set ''0123456789'')"

definition digitVal :: "char \<Rightarrow> nat" where
  "digitVal c = of_char c - 48"

definition digitsVal :: "string \<Rightarrow> nat" where
  "digitsVal ds = foldl (\<lambda>a c. 10 * a + digitVal c) 0 ds"

fun bitlen :: "nat \<Rightarrow> nat" where
  "bitlen n = (if n = 0 then 0 else Suc (bitlen (n div 2)))"

text \<open>
  The Number value of a natural number \<open>m\<close>: the nearest double, ties to the even
  significand of 53 bits, and \<^verbatim>\<open>Infinity\<close> from \<open>2^1024\<close> on. Up to \<open>2^53\<close> every
  natural number is its own double.
\<close>

definition toDouble :: "nat \<Rightarrow> number" where
  "toDouble m =
     (let e = bitlen m in
      if e \<le> 53 then Fin (int m)
      else
        let sh = e - 53;
            q = m div 2 ^ sh;
            r = m mod 2 ^ sh;
            half = 2 ^ (sh - 1);
            q' = (if half < r \<or> (r = half \<and> odd q) then q + 1 else q);
            v = q' * 2 ^ sh
        in if 2 ^ 1024 \<le> v then PosInf else Fin (int v))"

definition negate :: "number \<Rightarrow> number" where
  "negate x = (case x of NaN \<Rightarrow> NaN | Fin i \<Rightarrow> Fin (- i) | PosInf \<Rightarrow> NegInf | NegInf \<Rightarrow> PosInf)"

text \<open>
  \<^verbatim>\<open>parseInt\<close> on a string, radix 10: leading white space is skipped, one sign is read,
  the longest run of decimal digits is taken and whatever follows is ignored; no digit
  gives \<^verbatim>\<open>NaN\<close>.
\<close>

definition parseIntStr :: "string \<Rightarrow> number" where
  "parseIntStr inputString =
     (let S = trimStart inputString;
          neg = (S \<noteq> [] \<and> hd S = CHR ''-'');
          S' = (if S \<noteq> [] \<and> (hd S = CHR ''+'' \<or> hd S = CHR ''-'') then tl S else S);
          Z = takeWhile isDigit S'
      in if Z = [] then NaN
         else if neg then negate (toDouble (digitsVal Z)) else toDouble (digitsVal Z))"

text \<open>\<^verbatim>\<open>parseInt(raw, 10)\<close> on any value: \<^verbatim>\<open>ToString\<close> first, which may throw.\<close>

definition parseInt :: "jsval \<Rightarrow> exn + number" where
  "parseInt raw =
     (case raw of
        None \<Rightarrow> Inr (parseIntStr ''undefined'')
      | Some v \<Rightarrow> (case ToString v of Inl e \<Rightarrow> Inl e | Inr s \<Rightarrow> Inr (parseIntStr s)))"

fun isInteger :: "number \<Rightarrow> bool" where
  "isInteger (Fin i) = True"
| "isInteger _ = False"

fun isNaN :: "number \<Rightarrow> bool" where
  "isNaN NaN = True"
| "isNaN _ = False"

section \<open>Requests\<close>

datatype http_method = GET | POST | PUT | PATCH | DELETE | OPTIONS

text \<open>
  \<open>req_path\<close> is the list of the decoded segments of the URL path; \<open>params_id\<close> is
  \<^verbatim>\<open>req.params.id\<close>, which the router fills from the path; \<open>query_id\<close> is
  \<^verbatim>\<open>req.query.id\<close> and \<open>body\<close> is \<^verbatim>\<open>req.body\<close>.
\<close>

record request =
  req_method :: http_method
  req_path :: "string list"
  params_id :: "string option"
  query_id :: jsval
  body :: jsval

subsection \<open>\<^verbatim>\<open>getId\<close> (part_000 lines 41-45, part_001 lines 72-76: the same text)\<close>

text \<open>\<^verbatim>\<open>req.params.id ?? req.query.id ?? req.body?.id\<close>\<close>

definition rawId :: "request \<Rightarrow> jsval" where
  "rawId req =
     coalesce (coalesce (map_option JStr (params_id req)) (query_id req))
              (optProp (body req) ''id'')"

text \<open>The last two lines of \<^verbatim>\<open>getId\<close>: \<open>None\<close> is the \<^verbatim>\<open>null\<close> it returns.\<close>

definition parseId :: "jsval \<Rightarrow> exn + int option" where
  "parseId raw =
     (case parseInt raw of
        Inl e \<Rightarrow> Inl e
      | Inr x \<Rightarrow> Inr (if isInteger x then (case x of Fin i \<Rightarrow> Some i | _ \<Rightarrow> None) else None))"

definition getId :: "request \<Rightarrow> exn + int option" where
  "getId req = parseId (rawId req)"

section \<open>The datastore and the responses\<close>

text \<open>
  The statements the three files send, each with its parameters. \<^verbatim>\<open>pool.query\<close> and
  \<^verbatim>\<open>pool.execute\<close> resolve to a list of rows for a \<^verbatim>\<open>SELECT\<close> and to a result header
  (\<^verbatim>\<open>affectedRows\<close>, \<^verbatim>\<open>insertId\<close>) for the other statements, or reject with an error.
\<close>

datatype stmt =
    SelectOneAsOk
  | SelectAllResources
  | InsertResource string string string string string
  | SelectResourceById int
  | DeleteResource number
  | SelectAllUsers
  | InsertUser string
  | UpdateUser string int
  | SelectUserById int
  | DeleteUser int

type_synonym row = "(string \<times> json) list"

record header =
  affectedRows :: int
  insertId :: int

text \<open>
  The datastore is outside the repository: a driver is any pair of functions on a store
  \<open>'d\<close> that answer a statement with rows or a header, or with the message of the
  error they reject with, and give the next store.
\<close>

record 'd driver =
  select :: "stmt \<Rightarrow> 'd \<Rightarrow> (string + row list) \<times> 'd"
  modify :: "stmt \<Rightarrow> 'd \<Rightarrow> (string + header) \<times> 'd"

text \<open>
  What a handler can change: the store, through the driver; \<open>issued\<close> lists the
  statements sent so far, \<open>rejected\<close> those among them that the driver rejected, each
  with the message of its error; \<open>console\<close> lists the calls of \<^verbatim>\<open>console.error\<close>.
\<close>

record 'd world =
  db :: 'd
  issued :: "stmt list"
  rejected :: "(stmt \<times> string) list"
  console :: "(string \<times> exn) list"

definition called :: "stmt \<Rightarrow> string + 'a \<Rightarrow> 'd \<Rightarrow> 'd world \<Rightarrow> 'd world" where
  "called st r d' w =
     w\<lparr>db := d', issued := issued w @ [st],
       rejected := rejected w @ (case r of Inl m \<Rightarrow> [(st, m)] | Inr _ \<Rightarrow> [])\<rparr>"

definition thrown :: "string + 'a \<Rightarrow> exn + 'a" where
  "thrown r = (case r of Inl m \<Rightarrow> Inl (QueryError m) | Inr x \<Rightarrow> Inr x)"

definition pool_select :: "'d driver \<Rightarrow> stmt \<Rightarrow> 'd world \<Rightarrow> (exn + row list) \<times> 'd world" where
  "pool_select drv st w =
     (case select drv st (db w) of (r, d') \<Rightarrow> (thrown r, called st r d' w))"

definition pool_modify :: "'d driver \<Rightarrow> stmt \<Rightarrow> 'd world \<Rightarrow> (exn + header) \<times> 'd world" where
  "pool_modify drv st w =
     (case modify drv st (db w) of (r, d') \<Rightarrow> (thrown r, called st r d' w))"

definition console_error :: "string \<Rightarrow> exn \<Rightarrow> 'd world \<Rightarrow> 'd world" where
  "console_error label err w = w\<lparr>console := console w @ [(label, err)]\<rparr>"

text \<open>A response: the status and the value given to \<^verbatim>\<open>res.json\<close>
  (\<open>None\<close> when it is \<^verbatim>\<open>undefined\<close> or when there is no body).\<close>

record response =
  status :: nat
  content :: jsval

definition json_response :: "nat \<Rightarrow> (string \<times> json) list \<Rightarrow> response" where
  "json_response st kvs = \<lparr>status = st, content = Some (JObj kvs)\<rparr>"

text \<open>\<^verbatim>\<open>rows[0]\<close>\<close>

definition first_row :: "row list \<Rightarrow> jsval" where
  "first_row rows = (case rows of [] \<Rightarrow> None | r # _ \<Rightarrow> Some (JObj r))"

text \<open>\<^verbatim>\<open>v.trim()\<close> and \<^verbatim>\<open>(v || d).trim()\<close>: a value that is not a string has no
  \<^verbatim>\<open>trim\<close>, and the call throws.\<close>

definition trimOf :: "jsval \<Rightarrow> exn + string" where
  "trimOf v = (case v of Some (JStr s) \<Rightarrow> Inr (trim s) | _ \<Rightarrow> Inl TypeError)"

definition trimOr :: "string \<Rightarrow> jsval \<Rightarrow> exn + string" where
  "trimOr d v = (if truthy v then trimOf v else Inr (trim d))"

section \<open>\<^verbatim>\<open>src/server.js\<close>: the resources API\<close>

definition msg_titulo_url :: string where
  "msg_titulo_url = ''El t'' @ [CHR 0xED] @ ''tulo y la URL son obligatorios''"

definition msg_id_invalido :: string where
  "msg_id_invalido = ''ID inv'' @ [CHR 0xE1] @ ''lido''"

text \<open>\<^verbatim>\<open>app.get("/api/resources")\<close>, lines 59-69\<close>

definition listResources :: "'d driver \<Rightarrow> request \<Rightarrow> 'd world \<Rightarrow> response \<times> 'd world" where
  "listResources drv req w =
     (case pool_select drv SelectAllResources w of
        (Inr rows, w1) \<Rightarrow> (\<lparr>status = 200, content = Some (JArr (map JObj rows))\<rparr>, w1)
      | (Inl err, w1) \<Rightarrow>
          (json_response 500 [(''message'', JStr ''Error al obtener los recursos'')],
           console_error ''Error al obtener recursos:'' err w1))"

text \<open>The five values of the \<^verbatim>\<open>INSERT\<close>, lines 87-93, evaluated in order.\<close>

definition insertValues :: "json \<Rightarrow> exn + stmt" where
  "insertValues b =
     (case trimOf (getProp b ''title'') of Inl e \<Rightarrow> Inl e | Inr t \<Rightarrow>
      case trimOr [] (getProp b ''description'') of Inl e \<Rightarrow> Inl e | Inr d \<Rightarrow>
      case trimOf (getProp b ''url'') of Inl e \<Rightarrow> Inl e | Inr u \<Rightarrow>
      case trimOr ''Otro'' (getProp b ''type'') of Inl e \<Rightarrow> Inl e | Inr ty \<Rightarrow>
      case trimOr ''Otro'' (getProp b ''platform'') of Inl e \<Rightarrow> Inl e | Inr pl \<Rightarrow>
        Inr (InsertResource t d u ty pl))"

definition createResourceFailed :: "exn \<Rightarrow> 'd world \<Rightarrow> response \<times> 'd world" where
  "createResourceFailed err w =
     (json_response 500 [(''message'', JStr ''Error al crear el recurso'')],
      console_error ''Error al crear recurso:'' err w)"

text \<open>\<^verbatim>\<open>app.post("/api/resources")\<close>, lines 72-108. Destructuring a nullish
  \<^verbatim>\<open>req.body\<close> throws.\<close>

definition createResource :: "'d driver \<Rightarrow> request \<Rightarrow> 'd world \<Rightarrow> response \<times> 'd world" where
  "createResource drv req w =
     (case body req of
        None \<Rightarrow> createResourceFailed TypeError w
      | Some JNull \<Rightarrow> createResourceFailed TypeError w
      | Some b \<Rightarrow>
          if \<not> truthy (getProp b ''title'') \<or> \<not> truthy (getProp b ''url'')
          then (json_response 400 [(''message'', JStr msg_titulo_url)], w)
          else
            (case insertValues b of
               Inl e \<Rightarrow> createResourceFailed e w
             | Inr ins \<Rightarrow>
                 (case pool_modify drv ins w of
                    (Inl e, w1) \<Rightarrow> createResourceFailed e w1
                  | (Inr result, w1) \<Rightarrow>
                      (case pool_select drv (SelectResourceById (insertId result)) w1 of
                         (Inl e, w2) \<Rightarrow> createResourceFailed e w2
                       | (Inr rows, w2) \<Rightarrow> (\<lparr>status = 201, content = first_row rows\<rparr>, w2)))))"

text \<open>\<^verbatim>\<open>app.delete("/api/resources/:id")\<close>, lines 111-132\<close>

definition deleteResource :: "'d driver \<Rightarrow> request \<Rightarrow> 'd world \<Rightarrow> response \<times> 'd world" where
  "deleteResource drv req w =
     (let n = parseIntStr (case params_id req of None \<Rightarrow> ''undefined'' | Some p \<Rightarrow> p) in
      if isNaN n then (json_response 400 [(''message'', JStr msg_id_invalido)], w)
      else
        (case pool_modify drv (DeleteResource n) w of
           (Inl e, w1) \<Rightarrow>
             (json_response 500 [(''message'', JStr ''Error al eliminar el recurso'')],
              console_error ''Error al eliminar recurso:'' e w1)
         | (Inr result, w1) \<Rightarrow>
             if affectedRows result = 0
             then (json_response 404 [(''message'', JStr ''Recurso no encontrado'')], w1)
             else (json_response 200 [(''message'', JStr ''Recurso eliminado correctamente'')], w1)))"

section \<open>\<^verbatim>\<open>src/unnamed/part_000\<close>: the users API, first variant\<close>

definition msg_nombre_no_valido :: string where
  "msg_nombre_no_valido = ''Nombre no v'' @ [CHR 0xE1] @ ''lido''"

definition msg_error_de_conexion :: string where
  "msg_error_de_conexion = ''Error de conexi'' @ [CHR 0xF3] @ ''n: ''"

definition failure :: "nat \<Rightarrow> string \<Rightarrow> response" where
  "failure st msg = json_response st [(''success'', JBool False), (''error'', JStr msg)]"

definition success :: "string \<Rightarrow> response" where
  "success msg = json_response 200 [(''success'', JBool True), (''message'', JStr msg)]"

text \<open>\<^verbatim>\<open>err.message || err\<close> appended to a string: the message, or for an empty message
  the error printed by \<^verbatim>\<open>Error.prototype.toString\<close>.\<close>

definition messageOrError :: "string \<Rightarrow> string" where
  "messageOrError m = (if m \<noteq> [] then m else ''Error'')"

text \<open>\<^verbatim>\<open>app.get("/users")\<close>, part_000 lines 48-55. Only the query can throw here.\<close>

definition listUsers_000 :: "'d driver \<Rightarrow> request \<Rightarrow> 'd world \<Rightarrow> response \<times> 'd world" where
  "listUsers_000 drv req w =
     (case select drv SelectAllUsers (db w) of
        (r, d') \<Rightarrow>
          ((case r of
              Inr rows \<Rightarrow> \<lparr>status = 200, content = Some (JArr (map JObj rows))\<rparr>
            | Inl m \<Rightarrow>
                json_response 500 [(''error'', JStr (msg_error_de_conexion @ messageOrError m))]),
           called SelectAllUsers r d' w))"

text \<open>\<^verbatim>\<open>(req.body?.name || "").trim()\<close>\<close>

definition bodyName :: "request \<Rightarrow> exn + string" where
  "bodyName req = trimOr [] (optProp (body req) ''name'')"

text \<open>\<^verbatim>\<open>app.post("/users")\<close>, part_000 lines 58-74\<close>

definition createUser_000 :: "'d driver \<Rightarrow> request \<Rightarrow> 'd world \<Rightarrow> response \<times> 'd world" where
  "createUser_000 drv req w =
     (case bodyName req of
        Inl e \<Rightarrow> (failure 500 ''Error al insertar usuario'', w)
      | Inr name \<Rightarrow>
          if name = [] then (failure 400 msg_nombre_no_valido, w)
          else
            (case pool_modify drv (InsertUser name) w of
               (Inl e, w1) \<Rightarrow> (failure 500 ''Error al insertar usuario'', w1)
             | (Inr result, w1) \<Rightarrow>
                 if affectedRows result = 1
                 then (success ''Usuario agregado correctamente'', w1)
                 else (failure 500 ''Error al insertar usuario'', w1)))"

text \<open>The body of a successful update: \<^verbatim>\<open>user: rows[0] || { id, name }\<close>.\<close>

definition updated :: "row list \<Rightarrow> int \<Rightarrow> string \<Rightarrow> response" where
  "updated rows i name =
     json_response 200
       [(''success'', JBool True),
        (''message'', JStr ''Usuario actualizado correctamente''),
        (''user'', (case rows of
                      [] \<Rightarrow> JObj [(''id'', JNum i), (''name'', JStr name)]
                    | r # _ \<Rightarrow> JObj r))]"

text \<open>
  \<^verbatim>\<open>updateUserHandler\<close>, part_000 lines 77-104 and part_001 lines 119-136. The two texts
  differ in the message of the \<^verbatim>\<open>catch\<close> clause only, which is the parameter \<open>caught\<close>.
  \<^verbatim>\<open>getId\<close> and the name are evaluated, and may throw, before either is checked.
\<close>

definition updateUser :: "string \<Rightarrow> 'd driver \<Rightarrow> request \<Rightarrow> 'd world \<Rightarrow> response \<times> 'd world" where
  "updateUser caught drv req w =
     (case getId req of
        Inl e \<Rightarrow> (failure 500 caught, w)
      | Inr id' \<Rightarrow>
          (case bodyName req of
             Inl e \<Rightarrow> (failure 500 caught, w)
           | Inr name \<Rightarrow>
               (case id' of
                  None \<Rightarrow> (failure 400 ''ID no proporcionado'', w)
                | Some i \<Rightarrow>
                    if name = [] then (failure 400 msg_nombre_no_valido, w)
                    else
                      (case pool_modify drv (UpdateUser name i) w of
                         (Inl e, w1) \<Rightarrow> (failure 500 caught, w1)
                       | (Inr result, w1) \<Rightarrow>
                           if affectedRows result = 1
                           then
                             (case pool_select drv (SelectUserById i) w1 of
                                (Inl e, w2) \<Rightarrow> (failure 500 caught, w2)
                              | (Inr rows, w2) \<Rightarrow> (updated rows i name, w2))
                           else (failure 404 ''Usuario no encontrado'', w1)))))"

definition updateUserHandler_000 :: "'d driver \<Rightarrow> request \<Rightarrow> 'd world \<Rightarrow> response \<times> 'd world" where
  "updateUserHandler_000 = updateUser ''Error al actualizar usuario''"

text \<open>
  \<^verbatim>\<open>app.delete("/users/:id?")\<close>, part_000 lines 109-125 and part_001 lines 141-154, which
  again differ in the message of the \<^verbatim>\<open>catch\<close> clause only.
\<close>

definition deleteUser :: "string \<Rightarrow> 'd driver \<Rightarrow> request \<Rightarrow> 'd world \<Rightarrow> response \<times> 'd world" where
  "deleteUser caught drv req w =
     (case getId req of
        Inl e \<Rightarrow> (failure 500 caught, w)
      | Inr None \<Rightarrow> (failure 400 ''ID no proporcionado'', w)
      | Inr (Some i) \<Rightarrow>
          (case pool_modify drv (DeleteUser i) w of
             (Inl e, w1) \<Rightarrow> (failure 500 caught, w1)
           | (Inr result, w1) \<Rightarrow>
               if affectedRows result = 1
               then (success ''Usuario eliminado correctamente'', w1)
               else (failure 404 ''Usuario no encontrado'', w1)))"

definition deleteUser_000 :: "'d driver \<Rightarrow> request \<Rightarrow> 'd world \<Rightarrow> response \<times> 'd world" where
  "deleteUser_000 = deleteUser ''Error al eliminar usuario''"

section \<open>\<^verbatim>\<open>src/unnamed/part_001\<close>: the users API, second variant\<close>

text \<open>\<^verbatim>\<open>app.get("/healthz")\<close>, lines 83-90: \<^verbatim>\<open>{ ok: r?.[0]?.ok === 1 }\<close>\<close>

definition healthz :: "'d driver \<Rightarrow> request \<Rightarrow> 'd world \<Rightarrow> response \<times> 'd world" where
  "healthz drv req w =
     (case pool_select drv SelectOneAsOk w of
        (Inr r, w1) \<Rightarrow>
          (json_response 200
             [(''ok'', JBool (case r of [] \<Rightarrow> False | r0 # _ \<Rightarrow> map_of r0 ''ok'' = Some (JNum 1)))],
           w1)
      | (Inl e, w1) \<Rightarrow> (json_response 503 [(''ok'', JBool False)], w1))"

text \<open>\<^verbatim>\<open>app.get("/users")\<close>, part_001 lines 93-100\<close>

definition listUsers_001 :: "'d driver \<Rightarrow> request \<Rightarrow> 'd world \<Rightarrow> response \<times> 'd world" where
  "listUsers_001 drv req w =
     (case pool_select drv SelectAllUsers w of
        (Inr rows, w1) \<Rightarrow> (\<lparr>status = 200, content = Some (JArr (map JObj rows))\<rparr>, w1)
      | (Inl e, w1) \<Rightarrow> (json_response 500 [(''error'', JStr ''Error interno'')], w1))"

text \<open>\<^verbatim>\<open>app.post("/users")\<close>, part_001 lines 103-116\<close>

definition createUser_001 :: "'d driver \<Rightarrow> request \<Rightarrow> 'd world \<Rightarrow> response \<times> 'd world" where
  "createUser_001 drv req w =
     (case bodyName req of
        Inl e \<Rightarrow> (failure 500 ''Error interno'', w)
      | Inr name \<Rightarrow>
          if name = [] then (failure 400 msg_nombre_no_valido, w)
          else
            (case pool_modify drv (InsertUser name) w of
               (Inl e, w1) \<Rightarrow> (failure 500 ''Error interno'', w1)
             | (Inr result, w1) \<Rightarrow>
                 if affectedRows result = 1
                 then (success ''Usuario agregado correctamente'', w1)
                 else (failure 500 ''No se pudo insertar'', w1)))"

definition updateUserHandler_001 :: "'d driver \<Rightarrow> request \<Rightarrow> 'd world \<Rightarrow> response \<times> 'd world" where
  "updateUserHandler_001 = updateUser ''Error interno''"

definition deleteUser_001 :: "'d driver \<Rightarrow> request \<Rightarrow> 'd world \<Rightarrow> response \<times> 'd world" where
  "deleteUser_001 = deleteUser ''Error interno''"

section \<open>Routing of the users API\<close>

text \<open>
  The route \<^verbatim>\<open>/users/:id?\<close> on the segments of the path: it matches \<^verbatim>\<open>/users\<close>, leaving
  \<^verbatim>\<open>req.params.id\<close> undefined, and \<^verbatim>\<open>/users/x\<close>, with \<^verbatim>\<open>req.params.id\<close> the
  string \<^verbatim>\<open>x\<close>. The result is \<open>None\<close> when the route does not match. The segment
  \<^verbatim>\<open>users\<close> is compared as written: a path that writes it in another case, which the
  router accepts too, is not among the requests described here.
\<close>

definition matchUsersId :: "string list \<Rightarrow> string option option" where
  "matchUsersId p =
     (case p of
        [s] \<Rightarrow> if s = ''users'' then Some None else None
      | [s, x] \<Rightarrow> if s = ''users'' then Some (Some x) else None
      | _ \<Rightarrow> None)"

definition bound ::
  "('d driver \<Rightarrow> request \<Rightarrow> 'd world \<Rightarrow> response \<times> 'd world) \<Rightarrow>
   'd driver \<Rightarrow> request \<Rightarrow> 'd world \<Rightarrow> (response \<times> 'd world) option" where
  "bound handler drv req w =
     (case matchUsersId (req_path req) of
        None \<Rightarrow> None
      | Some pid \<Rightarrow> Some (handler drv (req\<lparr>params_id := pid\<rparr>) w))"

text \<open>
  The routes of part_000 (lines 48, 58, 105, 106, 109), after the middleware that answers
  \<^verbatim>\<open>OPTIONS\<close> with 204. \<open>None\<close>: no route of the file matches. A response is its
  status and the value sent; the headers that the middleware sets on every response, and
  the rate limit of part_001, which counts requests whatever their verb, are left out.
\<close>

definition app_000 :: "'d driver \<Rightarrow> request \<Rightarrow> 'd world \<Rightarrow> (response \<times> 'd world) option" where
  "app_000 drv req w =
     (case req_method req of
        OPTIONS \<Rightarrow> Some (\<lparr>status = 204, content = None\<rparr>, w)
      | GET \<Rightarrow> if req_path req = [''users''] then Some (listUsers_000 drv req w) else None
      | POST \<Rightarrow> if req_path req = [''users''] then Some (createUser_000 drv req w) else None
      | PUT \<Rightarrow> bound updateUserHandler_000 drv req w
      | PATCH \<Rightarrow> bound updateUserHandler_000 drv req w
      | DELETE \<Rightarrow> bound deleteUser_000 drv req w)"

text \<open>The routes of part_001 (lines 83, 93, 103, 137, 138, 141).\<close>

definition app_001 :: "'d driver \<Rightarrow> request \<Rightarrow> 'd world \<Rightarrow> (response \<times> 'd world) option" where
  "app_001 drv req w =
     (case req_method req of
        OPTIONS \<Rightarrow> Some (\<lparr>status = 204, content = None\<rparr>, w)
      | GET \<Rightarrow>
          if req_path req = [''healthz''] then Some (healthz drv req w)
          else if req_path req = [''users''] then Some (listUsers_001 drv req w)
          else None
      | POST \<Rightarrow> if req_path req = [''users''] then Some (createUser_001 drv req w) else None
      | PUT \<Rightarrow> bound updateUserHandler_001 drv req w
      | PATCH \<Rightarrow> bound updateUserHandler_001 drv req w
      | DELETE \<Rightarrow> bound deleteUser_001 drv req w)"

section \<open>A reference datastore\<close>

text \<open>
  Modelled from the spec: the tables \<^verbatim>\<open>resources\<close> and \<^verbatim>\<open>users\<close>, whose schema is not
  under \<^verbatim>\<open>src/\<close>. Following the data model of the spec, a resource has an integer key and a
  creation time that the store assigns on insert, a user has an integer key and a name;
  the columns are the ones the statements of the source name.
\<close>

record resource =
  r_id :: int
  r_title :: string
  r_description :: string
  r_url :: string
  r_type :: string
  r_platform :: string
  r_created_at :: nat

record memdb =
  resources :: "resource list"
  resources_next :: int
  users :: "(int \<times> string) list"
  users_next :: int
  clock :: nat

definition resource_row :: "resource \<Rightarrow> row" where
  "resource_row r =
     [(''id'', JNum (r_id r)), (''title'', JStr (r_title r)),
      (''description'', JStr (r_description r)), (''url'', JStr (r_url r)),
      (''type'', JStr (r_type r)), (''platform'', JStr (r_platform r)),
      (''created_at'', JNum (int (r_created_at r)))]"

definition user_row :: "int \<times> string \<Rightarrow> row" where
  "user_row u = [(''id'', JNum (fst u)), (''name'', JStr (snd u))]"

definition mem_select :: "stmt \<Rightarrow> memdb \<Rightarrow> (string + row list) \<times> memdb" where
  "mem_select st d =
     (case st of
        SelectOneAsOk \<Rightarrow> (Inr [[(''ok'', JNum 1)]], d)
      | SelectAllResources \<Rightarrow>
          (Inr (map resource_row (rev (sort_key r_created_at (resources d)))), d)
      | SelectResourceById i \<Rightarrow>
          (Inr (map resource_row (filter (\<lambda>r. r_id r = i) (resources d))), d)
      | SelectAllUsers \<Rightarrow> (Inr (map user_row (rev (sort_key fst (users d)))), d)
      | SelectUserById i \<Rightarrow> (Inr (map user_row (filter (\<lambda>u. fst u = i) (users d))), d)
      | _ \<Rightarrow> (Inl ''not a query'', d))"

definition mem_modify :: "stmt \<Rightarrow> memdb \<Rightarrow> (string + header) \<times> memdb" where
  "mem_modify st d =
     (case st of
        InsertResource t de u ty pl \<Rightarrow>
          (Inr \<lparr>affectedRows = 1, insertId = resources_next d\<rparr>,
           d\<lparr>resources := resources d @
                 [\<lparr>r_id = resources_next d, r_title = t, r_description = de, r_url = u,
                   r_type = ty, r_platform = pl, r_created_at = clock d\<rparr>],
             resources_next := resources_next d + 1\<rparr>)
      | DeleteResource n \<Rightarrow>
          (case n of
             Fin i \<Rightarrow>
               (Inr \<lparr>affectedRows = int (length (filter (\<lambda>r. r_id r = i) (resources d))),
                     insertId = 0\<rparr>,
                d\<lparr>resources := filter (\<lambda>r. r_id r \<noteq> i) (resources d)\<rparr>)
           | _ \<Rightarrow> (Inl ''Unknown column in where clause'', d))
      | InsertUser name \<Rightarrow>
          (Inr \<lparr>affectedRows = 1, insertId = users_next d\<rparr>,
           d\<lparr>users := users d @ [(users_next d, name)], users_next := users_next d + 1\<rparr>)
      | UpdateUser name i \<Rightarrow>
          (Inr \<lparr>affectedRows = int (length (filter (\<lambda>u. fst u = i) (users d))), insertId = 0\<rparr>,
           d\<lparr>users := map (\<lambda>u. if fst u = i then (i, name) else u) (users d)\<rparr>)
      | DeleteUser i \<Rightarrow>
          (Inr \<lparr>affectedRows = int (length (filter (\<lambda>u. fst u = i) (users d))), insertId = 0\<rparr>,
           d\<lparr>users := filter (\<lambda>u. fst u \<noteq> i) (users d)\<rparr>)
      | _ \<Rightarrow> (Inl ''not a data change'', d))"

definition mem :: "memdb driver" where
  "mem = \<lparr>select = mem_select, modify = mem_modify\<rparr>"

text \<open>A datastore that cannot be reached: every statement is rejected with the message.\<close>

definition unreachable :: "string \<Rightarrow> 'd driver" where
  "unreachable m = \<lparr>select = (\<lambda>st d. (Inl m, d)), modify = (\<lambda>st d. (Inl m, d))\<rparr>"

definition empty_db :: memdb where
  "empty_db = \<lparr>resources = [], resources_next = 1, users = [], users_next = 1, clock = 0\<rparr>"

definition start :: "'d \<Rightarrow> 'd world" where
  "start d = \<lparr>db = d, issued = [], rejected = [], console = []\<rparr>"

section \<open>Inputs used below\<close>

text \<open>The digit 1 followed by 309 zeros: a run of digits whose value is more than any
  double.\<close>

definition tooLong :: string where
  "tooLong = CHR ''1'' # replicate 309 (CHR ''0'')"

section \<open>The answer of each handler to a rejected statement\<close>

text \<open>
  For each handler but \<^verbatim>\<open>GET /users\<close> of part_000: the response its \<^verbatim>\<open>catch\<close> clause
  sends, and the label of its \<^verbatim>\<open>console.error\<close> call when the clause has one.
\<close>

definition caught_responses ::
  "(('d driver \<Rightarrow> request \<Rightarrow> 'd world \<Rightarrow> response \<times> 'd world) \<times> response \<times> string option) list" where
  "caught_responses =
     [(listResources, json_response 500 [(''message'', JStr ''Error al obtener los recursos'')],
         Some ''Error al obtener recursos:''),
      (createResource, json_response 500 [(''message'', JStr ''Error al crear el recurso'')],
         Some ''Error al crear recurso:''),
      (deleteResource, json_response 500 [(''message'', JStr ''Error al eliminar el recurso'')],
         Some ''Error al eliminar recurso:''),
      (createUser_000, failure 500 ''Error al insertar usuario'', None),
      (updateUserHandler_000, failure 500 ''Error al actualizar usuario'', None),
      (deleteUser_000, failure 500 ''Error al eliminar usuario'', None),
      (healthz, json_response 503 [(''ok'', JBool False)], None),
      (listUsers_001, json_response 500 [(''error'', JStr ''Error interno'')], None),
      (createUser_001, failure 500 ''Error interno'', None),
      (updateUserHandler_001, failure 500 ''Error interno'', None),
      (deleteUser_001, failure 500 ''Error interno'', None)]"

text \<open>What the console holds after a handler whose statement was rejected: one more entry,
  with the error of the last rejection, when the handler logs.\<close>

definition logged :: "string option \<Rightarrow> 'd world \<Rightarrow> 'd world \<Rightarrow> (string \<times> exn) list" where
  "logged label w w' =
     (case label of
        None \<Rightarrow> console w
      | Some l \<Rightarrow> console w @ [(l, QueryError (snd (last (rejected w'))))])"

section \<open>Numbers: what \<^verbatim>\<open>parseInt\<close> returns\<close>

lemma bitlen_le: "m < 2 ^ n \<Longrightarrow> bitlen m \<le> n"
proof (induction n arbitrary: m)
  case 0
  then show ?case by simp
next
  case (Suc n)
  have "m div 2 < 2 ^ n" using Suc.prems by simp
  then have "bitlen (m div 2) \<le> n" by (rule Suc.IH)
  then show ?case by (subst bitlen.simps) simp
qed

lemma bitlen_gt: "2 ^ n \<le> m \<Longrightarrow> n < bitlen m"
proof (induction n arbitrary: m)
  case 0
  then show ?case by (subst bitlen.simps) simp
next
  case (Suc n)
  have "2 ^ n \<le> m div 2" using Suc.prems by simp
  then have "n < bitlen (m div 2)" by (rule Suc.IH)
  moreover have "0 < (2::nat) ^ Suc n" by (rule zero_less_power) simp
  then have "m \<noteq> 0" using Suc.prems by linarith
  ultimately show ?case by (subst bitlen.simps) simp
qed

lemma bitlen_eq: "2 ^ n \<le> m \<Longrightarrow> m < 2 ^ Suc n \<Longrightarrow> bitlen m = Suc n"
  using bitlen_gt [of n m] bitlen_le [of m "Suc n"] by simp

lemma bitlen_lower: "m \<noteq> 0 \<Longrightarrow> 2 ^ (bitlen m - 1) \<le> m"
proof (induction m rule: bitlen.induct)
  case (1 n)
  show ?case
  proof (cases "n div 2 = 0")
    case True
    then have "n = 1" using 1 by (simp add: div_eq_0_iff)
    then show ?thesis by (subst bitlen.simps) simp
  next
    case False
    then have "2 ^ (bitlen (n div 2) - 1) \<le> n div 2" using 1 by simp
    moreover have "bitlen (n div 2) \<noteq> 0" using False by (subst bitlen.simps) simp
    ultimately have "2 ^ bitlen (n div 2) \<le> 2 * (n div 2)"
      by (cases "bitlen (n div 2)") simp_all
    then have "2 ^ bitlen (n div 2) \<le> n" by linarith
    then show ?thesis using 1(2) by (subst bitlen.simps) simp
  qed
qed

text \<open>Below \<open>2^53\<close> a natural number is its own double.\<close>

lemma toDouble_small: "m < 2 ^ 53 \<Longrightarrow> toDouble m = Fin (int m)"
  using bitlen_le [of m 53] by (simp add: toDouble_def Let_def)

text \<open>From \<open>2^1024\<close> on the double is \<^verbatim>\<open>Infinity\<close>.\<close>

lemma toDouble_huge:
  assumes "2 ^ 1024 \<le> m"
  shows "toDouble m = PosInf"
proof -
  define e where "e = bitlen m"
  have e: "1024 < e" unfolding e_def using assms by (rule bitlen_gt)
  have m0: "m \<noteq> 0" using assms by auto
  define sh where "sh = e - 53"
  have low: "2 ^ (e - 1) \<le> m" unfolding e_def using m0 by (rule bitlen_lower)
  have split: "e - 1 = 52 + sh" using e by (simp add: sh_def)
  have "(2::nat) ^ 52 * 2 ^ sh \<le> m" using low unfolding split power_add .
  then have q: "2 ^ 52 \<le> m div 2 ^ sh"
    by (simp add: less_eq_div_iff_mult_less_eq)
  define q where "q = m div 2 ^ sh"
  define q' where
    "q' = (if 2 ^ (sh - 1) < m mod 2 ^ sh \<or> (m mod 2 ^ sh = 2 ^ (sh - 1) \<and> odd q)
           then q + 1 else q)"
  have "2 ^ 52 \<le> q'" using q by (simp add: q'_def q_def)
  then have a: "(2::nat) ^ 52 * 2 ^ sh \<le> q' * 2 ^ sh" by (rule mult_le_mono1)
  have "(2::nat) ^ 1024 \<le> 2 ^ (52 + sh)"
    using e by (intro power_increasing) (simp_all add: sh_def)
  then have b: "(2::nat) ^ 1024 \<le> 2 ^ 52 * 2 ^ sh" unfolding power_add .
  have big: "(2::nat) ^ 1024 \<le> q' * 2 ^ sh" using b a by (rule order_trans)
  have "\<not> e \<le> 53" using e by simp
  then show ?thesis
    using big
    unfolding toDouble_def Let_def e_def [symmetric] sh_def [symmetric]
      q_def [symmetric] q'_def [symmetric]
    by simp
qed

text \<open>\<open>2^53 + 1\<close> lies halfway between two doubles and goes to the even one.\<close>

lemma toDouble_tie: "toDouble 9007199254740993 = Fin 9007199254740992"
proof -
  have "bitlen 9007199254740993 = Suc 53" by (rule bitlen_eq) simp_all
  then show ?thesis by (simp add: toDouble_def Let_def)
qed

lemma isDigit_not_space: "isDigit c \<Longrightarrow> \<not> isWhiteSpace c"
  by (auto simp: isDigit_def isWhiteSpace_def)

lemma isDigit_not_sign: "isDigit c \<Longrightarrow> c \<noteq> CHR ''+'' \<and> c \<noteq> CHR ''-''"
  by (auto simp: isDigit_def)

text \<open>A string that starts with a run of digits, ended by a character that is not a digit
  or by the end of the string, parses to the double of the run.\<close>

lemma parseIntStr_digits:
  assumes ds: "ds \<noteq> []" "\<forall>c\<in>set ds. isDigit c"
    and rest: "rest = [] \<or> \<not> isDigit (hd rest)"
  shows "parseIntStr (ds @ rest) = toDouble (digitsVal ds)"
proof -
  obtain d ds' where d: "ds = d # ds'" using ds(1) by (cases ds) auto
  have dig: "isDigit d" using ds(2) d by simp
  have trimmed: "trimStart (ds @ rest) = ds @ rest"
    using isDigit_not_space [OF dig] by (simp add: trimStart_def d)
  have run: "takeWhile isDigit (ds @ rest) = ds"
  proof (cases rest)
    case Nil
    then show ?thesis using ds(2) by simp
  next
    case (Cons c cs)
    then have "\<not> isDigit c" using rest by simp
    then show ?thesis using ds(2) Cons by (simp add: takeWhile_append2)
  qed
  have hd: "hd (ds @ rest) = d" by (simp add: d)
  show ?thesis
    using isDigit_not_sign [OF dig] ds(1) run
    by (simp add: parseIntStr_def trimmed hd Let_def)
qed

lemma digitsVal_snoc: "digitsVal (ds @ [c]) = 10 * digitsVal ds + digitVal c"
  by (simp add: digitsVal_def)

lemma digitsVal_zeros: "digitsVal (ds @ replicate n (CHR ''0'')) = digitsVal ds * 10 ^ n"
proof (induction n)
  case 0
  then show ?case by simp
next
  case (Suc n)
  have "digitsVal (ds @ replicate (Suc n) (CHR ''0'')) =
        digitsVal ((ds @ replicate n (CHR ''0'')) @ [CHR ''0''])"
    by (simp add: replicate_append_same)
  also have "\<dots> = 10 * digitsVal (ds @ replicate n (CHR ''0''))"
    unfolding digitsVal_snoc by (simp add: digitVal_def)
  finally show ?case using Suc.IH by simp
qed

lemma digitsVal_tooLong: "digitsVal tooLong = 10 ^ 309"
  using digitsVal_zeros [of "''1''" 309] by (simp add: tooLong_def digitsVal_def digitVal_def)

lemma parseIntStr_tooLong:
  assumes "rest = [] \<or> \<not> isDigit (hd rest)"
  shows "parseIntStr (tooLong @ rest) = PosInf"
proof -
  have "parseIntStr (tooLong @ rest) = toDouble (digitsVal tooLong)"
    using assms by (intro parseIntStr_digits) (simp_all add: tooLong_def isDigit_def)
  also have "\<dots> = PosInf"
    unfolding digitsVal_tooLong by (rule toDouble_huge) simp
  finally show ?thesis .
qed

section \<open>Identifier resolution\<close>

lemma parseIntStr_digit: "isDigit c \<Longrightarrow> parseIntStr [c] = Fin (int (digitVal c))"
proof -
  assume c: "isDigit c"
  have "parseIntStr ([c] @ []) = toDouble (digitsVal [c])"
    by (rule parseIntStr_digits) (simp_all add: c)
  moreover have "digitsVal [c] < 2 ^ 53"
    using c by (auto simp: digitsVal_def digitVal_def isDigit_def)
  ultimately show ?thesis by (simp add: toDouble_small digitsVal_def)
qed

lemma parseId_string: "parseId (Some (JStr s)) = Inr (case parseIntStr s of Fin i \<Rightarrow> Some i | _ \<Rightarrow> None)"
  by (cases "parseIntStr s") (simp_all add: parseId_def parseInt_def)

lemma getId_path_digit:
  "isDigit c \<Longrightarrow>
   getId \<lparr>req_method = mth, req_path = pth, params_id = Some [c], query_id = q, body = b\<rparr>
     = Inr (Some (int (digitVal c)))"
  by (simp add: getId_def rawId_def coalesce_def nullish_def parseId_string parseIntStr_digit)

text \<open>
  C1. Identifier resolution takes the path parameter when there is one, else the query
  parameter when it is not nullish, else the \<^verbatim>\<open>id\<close> of the body: the first value present
  decides alone. With the path id 5, the query id 6 and the body id 7 the result is 5.
\<close>

theorem getId_first_present_wins:
  "(params_id req = Some p \<longrightarrow> getId req = parseId (Some (JStr p))) \<and>
   (params_id req = None \<and> \<not> nullish (query_id req) \<longrightarrow> getId req = parseId (query_id req)) \<and>
   (params_id req = None \<and> nullish (query_id req) \<longrightarrow>
      getId req = parseId (optProp (body req) ''id'')) \<and>
   getId \<lparr>req_method = m, req_path = [''users'', ''5''], params_id = Some ''5'',
          query_id = Some (JStr ''6''), body = Some (JObj [(''id'', JNum 7)])\<rparr> = Inr (Some 5)"
proof -
  have "parseIntStr ''5'' = Fin 5"
    by (subst parseIntStr_digit) (simp_all add: isDigit_def digitVal_def)
  then have "parseId (Some (JStr ''5'')) = Inr (Some 5)"
    by (simp add: parseId_string)
  then show ?thesis
    by (simp add: getId_def rawId_def coalesce_def nullish_def)
qed

theorem getId_first_present_wins_witness:
  "getId \<lparr>req_method = PUT, req_path = [''users'', ''5''], params_id = Some ''5'',
          query_id = Some (JStr ''6''), body = Some (JObj [(''id'', JNum 7)])\<rparr>
     = parseId (Some (JStr ''5'')) \<and>
   getId \<lparr>req_method = PUT, req_path = [''users''], params_id = None,
          query_id = Some (JStr ''6''), body = Some (JObj [(''id'', JNum 7)])\<rparr>
     = parseId (Some (JStr ''6'')) \<and>
   getId \<lparr>req_method = PUT, req_path = [''users''], params_id = None,
          query_id = None, body = Some (JObj [(''id'', JNum 7)])\<rparr>
     = parseId (Some (JNum 7))"
  using
    getId_first_present_wins [of "\<lparr>req_method = PUT, req_path = [''users'', ''5''], params_id = Some ''5'',
          query_id = Some (JStr ''6''), body = Some (JObj [(''id'', JNum 7)])\<rparr>" "''5''"]
    getId_first_present_wins [of "\<lparr>req_method = PUT, req_path = [''users''], params_id = None,
          query_id = Some (JStr ''6''), body = Some (JObj [(''id'', JNum 7)])\<rparr>"]
    getId_first_present_wins [of "\<lparr>req_method = PUT, req_path = [''users''], params_id = None,
          query_id = None, body = Some (JObj [(''id'', JNum 7)])\<rparr>"]
  by (simp add: nullish_def optProp_def)

lemma getId_string:
  "rawId req = Some (JStr s) \<Longrightarrow>
   getId req = Inr (case parseIntStr s of Fin i \<Rightarrow> Some i | _ \<Rightarrow> None)"
  by (simp add: getId_def parseId_string)

text \<open>Once the identifier is resolved, a delete sends its statement for that identifier
  and does not answer 400.\<close>

lemma deleteUser_resolved:
  assumes "getId req = Inr (Some i)"
  shows "status (fst (deleteUser caught drv req w)) \<noteq> 400 \<and>
         issued (snd (deleteUser caught drv req w)) = issued w @ [DeleteUser i]"
  using assms
  by (simp add: deleteUser_def pool_modify_def called_def thrown_def failure_def success_def
      json_response_def split: prod.splits sum.splits)

text \<open>So does an update with a name that is not empty; its first statement is the
  \<^verbatim>\<open>UPDATE\<close>.\<close>

lemma updateUser_resolved:
  assumes "getId req = Inr (Some i)" and "bodyName req = Inr name" and "name \<noteq> []"
  shows "status (fst (updateUser caught drv req w)) \<noteq> 400 \<and>
         take (Suc (length (issued w))) (issued (snd (updateUser caught drv req w)))
           = issued w @ [UpdateUser name i]"
  using assms
  by (simp add: updateUser_def pool_modify_def pool_select_def called_def thrown_def failure_def
      updated_def json_response_def split: prod.splits sum.splits)

text \<open>
  C10, amended. An identifier string that begins with decimal digits followed by a
  character that is not a digit resolves to the Number nearest to the integer of its
  leading digits when that Number is finite, and is rejected when it is not. Below
  \<open>2^53\<close> the Number is the integer itself. When it is finite, delete and update send
  their statement for that identifier instead of answering 400.
\<close>

theorem getId_leading_digits:
  assumes "ds \<noteq> []" and "\<forall>c\<in>set ds. isDigit c" and "\<not> isDigit c0"
    and "rawId req = Some (JStr (ds @ c0 # cs))"
  shows "getId req = Inr (case toDouble (digitsVal ds) of Fin i \<Rightarrow> Some i | _ \<Rightarrow> None) \<and>
         (digitsVal ds < 2 ^ 53 \<longrightarrow> toDouble (digitsVal ds) = Fin (int (digitsVal ds))) \<and>
         (toDouble (digitsVal ds) = Fin i \<longrightarrow>
            getId req = Inr (Some i) \<and>
            status (fst (deleteUser_000 drv req w)) \<noteq> 400 \<and>
            issued (snd (deleteUser_000 drv req w)) = issued w @ [DeleteUser i] \<and>
            status (fst (deleteUser_001 drv req w)) \<noteq> 400 \<and>
            issued (snd (deleteUser_001 drv req w)) = issued w @ [DeleteUser i] \<and>
            (bodyName req = Inr name \<and> name \<noteq> [] \<longrightarrow>
               status (fst (updateUserHandler_000 drv req w)) \<noteq> 400 \<and>
               take (Suc (length (issued w))) (issued (snd (updateUserHandler_000 drv req w)))
                 = issued w @ [UpdateUser name i] \<and>
               status (fst (updateUserHandler_001 drv req w)) \<noteq> 400 \<and>
               take (Suc (length (issued w))) (issued (snd (updateUserHandler_001 drv req w)))
                 = issued w @ [UpdateUser name i]))"
proof -
  have "parseIntStr (ds @ c0 # cs) = toDouble (digitsVal ds)"
    using assms(1-3) by (intro parseIntStr_digits) simp_all
  then have resolved: "getId req = Inr (case toDouble (digitsVal ds) of Fin i \<Rightarrow> Some i | _ \<Rightarrow> None)"
    using assms(4) by (simp add: getId_string)
  have exact: "digitsVal ds < 2 ^ 53 \<longrightarrow> toDouble (digitsVal ds) = Fin (int (digitsVal ds))"
    by (simp add: toDouble_small)
  have finite: "toDouble (digitsVal ds) = Fin i \<longrightarrow>
            getId req = Inr (Some i) \<and>
            status (fst (deleteUser_000 drv req w)) \<noteq> 400 \<and>
            issued (snd (deleteUser_000 drv req w)) = issued w @ [DeleteUser i] \<and>
            status (fst (deleteUser_001 drv req w)) \<noteq> 400 \<and>
            issued (snd (deleteUser_001 drv req w)) = issued w @ [DeleteUser i] \<and>
            (bodyName req = Inr name \<and> name \<noteq> [] \<longrightarrow>
               status (fst (updateUserHandler_000 drv req w)) \<noteq> 400 \<and>
               take (Suc (length (issued w))) (issued (snd (updateUserHandler_000 drv req w)))
                 = issued w @ [UpdateUser name i] \<and>
               status (fst (updateUserHandler_001 drv req w)) \<noteq> 400 \<and>
               take (Suc (length (issued w))) (issued (snd (updateUserHandler_001 drv req w)))
                 = issued w @ [UpdateUser name i])"
  proof
    assume "toDouble (digitsVal ds) = Fin i"
    then have id: "getId req = Inr (Some i)" using resolved by simp
    show "getId req = Inr (Some i) \<and>
            status (fst (deleteUser_000 drv req w)) \<noteq> 400 \<and>
            issued (snd (deleteUser_000 drv req w)) = issued w @ [DeleteUser i] \<and>
            status (fst (deleteUser_001 drv req w)) \<noteq> 400 \<and>
            issued (snd (deleteUser_001 drv req w)) = issued w @ [DeleteUser i] \<and>
            (bodyName req = Inr name \<and> name \<noteq> [] \<longrightarrow>
               status (fst (updateUserHandler_000 drv req w)) \<noteq> 400 \<and>
               take (Suc (length (issued w))) (issued (snd (updateUserHandler_000 drv req w)))
                 = issued w @ [UpdateUser name i] \<and>
               status (fst (updateUserHandler_001 drv req w)) \<noteq> 400 \<and>
               take (Suc (length (issued w))) (issued (snd (updateUserHandler_001 drv req w)))
                 = issued w @ [UpdateUser name i])"
      unfolding deleteUser_000_def deleteUser_001_def updateUserHandler_000_def
        updateUserHandler_001_def
      using id
        deleteUser_resolved [OF id, of "''Error al eliminar usuario''" drv w]
        deleteUser_resolved [OF id, of "''Error interno''" drv w]
        updateUser_resolved [OF id, of name "''Error al actualizar usuario''" drv w]
        updateUser_resolved [OF id, of name "''Error interno''" drv w]
      by blast
  qed
  show ?thesis using resolved exact finite by blast
qed

theorem getId_leading_digits_witness:
  "getId \<lparr>req_method = DELETE, req_path = [''users'', ''7abc''], params_id = Some ''7abc'',
          query_id = None, body = None\<rparr> = Inr (Some 7) \<and>
   getId \<lparr>req_method = PUT, req_path = [''users'', ''7.9''], params_id = Some ''7.9'',
          query_id = None, body = Some (JObj [(''name'', JStr ''Ana'')])\<rparr> = Inr (Some 7) \<and>
   issued (snd (deleteUser_001 mem
     \<lparr>req_method = DELETE, req_path = [''users'', ''7abc''], params_id = Some ''7abc'',
       query_id = None, body = None\<rparr> (start empty_db))) = [DeleteUser 7]"
proof -
  have seven: "toDouble (digitsVal ''7'') = Fin 7"
    by (subst toDouble_small) (simp_all add: digitsVal_def digitVal_def)
  have abc: "getId \<lparr>req_method = DELETE, req_path = [''users'', ''7abc''],
          params_id = Some ''7abc'', query_id = None, body = None\<rparr> = Inr (Some 7) \<and>
      issued (snd (deleteUser_001 mem
        \<lparr>req_method = DELETE, req_path = [''users'', ''7abc''], params_id = Some ''7abc'',
          query_id = None, body = None\<rparr> (start empty_db)))
        = issued (start empty_db) @ [DeleteUser 7]"
    using getId_leading_digits [of "''7''" "CHR ''a''"
        "\<lparr>req_method = DELETE, req_path = [''users'', ''7abc''], params_id = Some ''7abc'',
          query_id = None, body = None\<rparr>" "''bc''" 7 mem "start empty_db"] seven
    by (simp add: isDigit_def rawId_def coalesce_def nullish_def)
  have dot: "getId \<lparr>req_method = PUT, req_path = [''users'', ''7.9''], params_id = Some ''7.9'',
          query_id = None, body = Some (JObj [(''name'', JStr ''Ana'')])\<rparr> = Inr (Some 7)"
    using getId_leading_digits [of "''7''" "CHR ''.''"
        "\<lparr>req_method = PUT, req_path = [''users'', ''7.9''], params_id = Some ''7.9'',
          query_id = None, body = Some (JObj [(''name'', JStr ''Ana'')])\<rparr>" "''9''" 7 mem "start empty_db"
        "''Ana''"] seven
    by (simp add: isDigit_def rawId_def coalesce_def nullish_def)
  show ?thesis using abc dot by (simp add: start_def)
qed

text \<open>
  C10 as stated fails on long runs of digits: 1 followed by 309 zeros and \<^verbatim>\<open>abc\<close> is
  rejected, so that the delete answers 400, and \<^verbatim>\<open>9007199254740993abc\<close> resolves to
  9007199254740992, which is not the integer of its leading digits.
\<close>

theorem getId_leading_digits_counterexample:
  "getId \<lparr>req_method = DELETE, req_path = [''users'', tooLong @ ''abc''],
          params_id = Some (tooLong @ ''abc''), query_id = None, body = None\<rparr> = Inr None \<and>
   fst (deleteUser_000 mem
          \<lparr>req_method = DELETE, req_path = [''users'', tooLong @ ''abc''],
            params_id = Some (tooLong @ ''abc''), query_id = None, body = None\<rparr>
          (start empty_db)) = failure 400 ''ID no proporcionado'' \<and>
   getId \<lparr>req_method = DELETE, req_path = [''users'', ''9007199254740993abc''],
          params_id = Some ''9007199254740993abc'', query_id = None, body = None\<rparr>
     = Inr (Some 9007199254740992)"
proof -
  have long: "parseIntStr (tooLong @ ''abc'') = PosInf"
    by (rule parseIntStr_tooLong) (simp add: isDigit_def)
  have "parseIntStr (''9007199254740993'' @ ''abc'') = toDouble (digitsVal ''9007199254740993'')"
    by (rule parseIntStr_digits) (simp_all add: isDigit_def)
  moreover have "digitsVal ''9007199254740993'' = 9007199254740993"
    by (simp add: digitsVal_def digitVal_def)
  ultimately have tie: "parseIntStr ''9007199254740993abc'' = Fin 9007199254740992"
    by (simp add: toDouble_tie)
  have a: "getId \<lparr>req_method = DELETE, req_path = [''users'', tooLong @ ''abc''],
          params_id = Some (tooLong @ ''abc''), query_id = None, body = None\<rparr> = Inr None"
    by (subst getId_string [of _ "tooLong @ ''abc''"])
       (simp_all add: rawId_def coalesce_def nullish_def long)
  have b: "getId \<lparr>req_method = DELETE, req_path = [''users'', ''9007199254740993abc''],
          params_id = Some ''9007199254740993abc'', query_id = None, body = None\<rparr>
     = Inr (Some 9007199254740992)"
    by (subst getId_string [of _ "''9007199254740993abc''"])
       (simp_all add: rawId_def coalesce_def nullish_def tie)
  show ?thesis
    using a b by (simp add: deleteUser_000_def deleteUser_def)
qed

section \<open>Creating\<close>

text \<open>
  C6. A request to create a user whose name is absent (or \<^verbatim>\<open>null\<close>, or another falsy
  value), or is a string that is empty after trimming, is answered 400 with
  \<^verbatim>\<open>success: false\<close> and the validation message, by both variants, and nothing is sent
  to the datastore: the world is unchanged.
\<close>

theorem createUser_rejects_empty_name:
  assumes "\<not> truthy (optProp (body req) ''name'') \<or>
           (\<exists>s. optProp (body req) ''name'' = Some (JStr s) \<and> trim s = [])"
  shows "createUser_000 drv req w =
           (json_response 400 [(''success'', JBool False), (''error'', JStr msg_nombre_no_valido)], w) \<and>
         createUser_001 drv req w =
           (json_response 400 [(''success'', JBool False), (''error'', JStr msg_nombre_no_valido)], w)"
proof -
  have "bodyName req = Inr []"
    using assms by (auto simp: bodyName_def trimOr_def trimOf_def trim_def)
  then show ?thesis
    by (simp add: createUser_000_def createUser_001_def failure_def)
qed

theorem createUser_rejects_empty_name_witness:
  "createUser_000 mem
     \<lparr>req_method = POST, req_path = [''users''], params_id = None, query_id = None,
       body = Some (JObj [(''name'', JStr ''  '')])\<rparr> (start empty_db) =
     (json_response 400 [(''success'', JBool False), (''error'', JStr msg_nombre_no_valido)],
      start empty_db) \<and>
   createUser_001 mem
     \<lparr>req_method = POST, req_path = [''users''], params_id = None, query_id = None,
       body = Some (JObj [])\<rparr> (start empty_db) =
     (json_response 400 [(''success'', JBool False), (''error'', JStr msg_nombre_no_valido)],
      start empty_db)"
proof -
  have blank: "trim ''  '' = []"
    by (simp add: trim_def isWhiteSpace_def)
  show ?thesis
    using
      createUser_rejects_empty_name [of
        "\<lparr>req_method = POST, req_path = [''users''], params_id = None, query_id = None,
          body = Some (JObj [(''name'', JStr ''  '')])\<rparr>" mem "start empty_db"]
      createUser_rejects_empty_name [of
        "\<lparr>req_method = POST, req_path = [''users''], params_id = None, query_id = None,
          body = Some (JObj [])\<rparr>" mem "start empty_db"]
    by (simp add: optProp_def blank)
qed

text \<open>A resource whose title or url is absent or the empty string is answered 400, and
  nothing is sent to the datastore.\<close>

lemma createResource_rejects_missing:
  assumes "body req = Some (JObj kvs)"
    and "map_of kvs ''title'' \<in> {None, Some (JStr [])} \<or> map_of kvs ''url'' \<in> {None, Some (JStr [])}"
  shows "createResource drv req w = (json_response 400 [(''message'', JStr msg_titulo_url)], w)"
  using assms by (auto simp: createResource_def)

text \<open>
  C2 fails in \<^verbatim>\<open>src/server.js\<close> for a title of white space only: the check
  \<^verbatim>\<open>!title || !url\<close> is made before trimming, so the request passes it, and the insert is
  sent with the empty title that trimming leaves. On the empty reference datastore the row
  is stored and returned with status 201.
\<close>

theorem createResource_blank_title:
  "createResource mem
     \<lparr>req_method = POST, req_path = [''api'', ''resources''], params_id = None, query_id = None,
       body = Some (JObj [(''title'', JStr ''   ''), (''url'', JStr ''http://x'')])\<rparr>
     (start empty_db) =
   (\<lparr>status = 201,
      content = Some (JObj [(''id'', JNum 1), (''title'', JStr []), (''description'', JStr []),
        (''url'', JStr ''http://x''), (''type'', JStr ''Otro''), (''platform'', JStr ''Otro''),
        (''created_at'', JNum 0)])\<rparr>,
    \<lparr>db = \<lparr>resources = [\<lparr>r_id = 1, r_title = [], r_description = [], r_url = ''http://x'',
                            r_type = ''Otro'', r_platform = ''Otro'', r_created_at = 0\<rparr>],
            resources_next = 2, users = [], users_next = 1, clock = 0\<rparr>,
      issued = [InsertResource [] [] ''http://x'' ''Otro'' ''Otro'', SelectResourceById 1],
      rejected = [], console = []\<rparr>)"
  by (simp add: createResource_def insertValues_def trimOf_def trimOr_def trim_def
      isWhiteSpace_def pool_modify_def pool_select_def called_def thrown_def mem_def
      mem_modify_def mem_select_def start_def empty_db_def first_row_def resource_row_def)

theorem createResource_blank_title_witness:
  "status (fst (createResource mem
     \<lparr>req_method = POST, req_path = [''api'', ''resources''], params_id = None, query_id = None,
       body = Some (JObj [(''title'', JStr ''   ''), (''url'', JStr ''http://x'')])\<rparr>
     (start empty_db))) = 201 \<and>
   issued (snd (createResource mem
     \<lparr>req_method = POST, req_path = [''api'', ''resources''], params_id = None, query_id = None,
       body = Some (JObj [(''title'', JStr ''   ''), (''url'', JStr ''http://x'')])\<rparr>
     (start empty_db))) =
     [InsertResource [] [] ''http://x'' ''Otro'' ''Otro'', SelectResourceById 1]"
  using createResource_blank_title by simp

text \<open>
  C7. A resource created with the title \<^verbatim>\<open>A\<close> and the url \<^verbatim>\<open>http://x\<close> only is sent to the
  datastore, whatever the datastore, with the empty description, the type \<^verbatim>\<open>Otro\<close> and the
  platform \<^verbatim>\<open>Otro\<close>. On the reference datastore, where no row has the next key yet, the
  row stored is the row returned, with status 201, and it has these values.
\<close>

theorem createResource_defaults:
  assumes "\<forall>r\<in>set (resources (db w)). r_id r \<noteq> resources_next (db w)"
  shows "take (Suc (length (issued v)))
           (issued (snd (createResource drv
              \<lparr>req_method = POST, req_path = [''api'', ''resources''], params_id = None,
                query_id = None,
                body = Some (JObj [(''title'', JStr ''A''), (''url'', JStr ''http://x'')])\<rparr> v)))
           = issued v @ [InsertResource ''A'' [] ''http://x'' ''Otro'' ''Otro''] \<and>
         createResource mem
           \<lparr>req_method = POST, req_path = [''api'', ''resources''], params_id = None,
             query_id = None,
             body = Some (JObj [(''title'', JStr ''A''), (''url'', JStr ''http://x'')])\<rparr> w =
         (\<lparr>status = 201,
            content = Some (JObj [(''id'', JNum (resources_next (db w))), (''title'', JStr ''A''),
              (''description'', JStr []), (''url'', JStr ''http://x''), (''type'', JStr ''Otro''),
              (''platform'', JStr ''Otro''), (''created_at'', JNum (int (clock (db w))))])\<rparr>,
          w\<lparr>db := (db w)\<lparr>resources := resources (db w) @
                  [\<lparr>r_id = resources_next (db w), r_title = ''A'', r_description = [],
                    r_url = ''http://x'', r_type = ''Otro'', r_platform = ''Otro'',
                    r_created_at = clock (db w)\<rparr>],
                resources_next := resources_next (db w) + 1\<rparr>,
            issued := issued w @ [InsertResource ''A'' [] ''http://x'' ''Otro'' ''Otro'',
                                  SelectResourceById (resources_next (db w))]\<rparr>)"
proof -
  have ins: "insertValues (JObj [(''title'', JStr ''A''), (''url'', JStr ''http://x'')])
      = Inr (InsertResource ''A'' [] ''http://x'' ''Otro'' ''Otro'')"
    by (simp add: insertValues_def trimOf_def trimOr_def trim_def isWhiteSpace_def)
  have none: "filter (\<lambda>r. r_id r = resources_next (db w)) (resources (db w)) = []"
    using assms by (simp add: filter_empty_conv)
  have sent: "take (Suc (length (issued v)))
           (issued (snd (createResource drv
              \<lparr>req_method = POST, req_path = [''api'', ''resources''], params_id = None,
                query_id = None,
                body = Some (JObj [(''title'', JStr ''A''), (''url'', JStr ''http://x'')])\<rparr> v)))
           = issued v @ [InsertResource ''A'' [] ''http://x'' ''Otro'' ''Otro'']"
    by (simp add: createResource_def ins pool_modify_def pool_select_def called_def
        thrown_def createResourceFailed_def console_error_def split: prod.splits sum.splits)
  have stored: "createResource mem
           \<lparr>req_method = POST, req_path = [''api'', ''resources''], params_id = None,
             query_id = None,
             body = Some (JObj [(''title'', JStr ''A''), (''url'', JStr ''http://x'')])\<rparr> w =
         (\<lparr>status = 201,
            content = Some (JObj [(''id'', JNum (resources_next (db w))), (''title'', JStr ''A''),
              (''description'', JStr []), (''url'', JStr ''http://x''), (''type'', JStr ''Otro''),
              (''platform'', JStr ''Otro''), (''created_at'', JNum (int (clock (db w))))])\<rparr>,
          w\<lparr>db := (db w)\<lparr>resources := resources (db w) @
                  [\<lparr>r_id = resources_next (db w), r_title = ''A'', r_description = [],
                    r_url = ''http://x'', r_type = ''Otro'', r_platform = ''Otro'',
                    r_created_at = clock (db w)\<rparr>],
                resources_next := resources_next (db w) + 1\<rparr>,
            issued := issued w @ [InsertResource ''A'' [] ''http://x'' ''Otro'' ''Otro'',
                                  SelectResourceById (resources_next (db w))]\<rparr>)"
    by (simp add: createResource_def ins pool_modify_def pool_select_def called_def
        thrown_def mem_def mem_modify_def mem_select_def first_row_def resource_row_def none)
  show ?thesis using sent stored by (rule conjI)
qed

theorem createResource_defaults_witness:
  "createResource mem
     \<lparr>req_method = POST, req_path = [''api'', ''resources''], params_id = None, query_id = None,
       body = Some (JObj [(''title'', JStr ''A''), (''url'', JStr ''http://x'')])\<rparr>
     (start empty_db) =
   (\<lparr>status = 201,
      content = Some (JObj [(''id'', JNum 1), (''title'', JStr ''A''), (''description'', JStr []),
        (''url'', JStr ''http://x''), (''type'', JStr ''Otro''), (''platform'', JStr ''Otro''),
        (''created_at'', JNum 0)])\<rparr>,
    \<lparr>db = \<lparr>resources = [\<lparr>r_id = 1, r_title = ''A'', r_description = [], r_url = ''http://x'',
                            r_type = ''Otro'', r_platform = ''Otro'', r_created_at = 0\<rparr>],
            resources_next = 2, users = [], users_next = 1, clock = 0\<rparr>,
      issued = [InsertResource ''A'' [] ''http://x'' ''Otro'' ''Otro'', SelectResourceById 1],
      rejected = [], console = []\<rparr>)"
  using createResource_defaults [of "start empty_db", THEN conjunct2]
  by (simp add: start_def empty_db_def)

section \<open>Health check\<close>

text \<open>
  C8. \<^verbatim>\<open>GET /healthz\<close> sends the probe \<^verbatim>\<open>SELECT 1 AS ok\<close>. When the datastore answers it
  with its one row, \<open>ok = 1\<close>, the response is 200 with \<^verbatim>\<open>{ok: true}\<close>; when the
  datastore rejects it, the response is 503 with \<^verbatim>\<open>{ok: false}\<close>.
\<close>

theorem healthz_reports_probe:
  "(select drv SelectOneAsOk (db w) = (Inr [[(''ok'', JNum 1)]], d') \<longrightarrow>
      healthz drv req w =
        (json_response 200 [(''ok'', JBool True)],
         w\<lparr>db := d', issued := issued w @ [SelectOneAsOk]\<rparr>)) \<and>
   (select drv SelectOneAsOk (db w) = (Inl m, d') \<longrightarrow>
      healthz drv req w =
        (json_response 503 [(''ok'', JBool False)],
         w\<lparr>db := d', issued := issued w @ [SelectOneAsOk],
           rejected := rejected w @ [(SelectOneAsOk, m)]\<rparr>))"
  by (simp add: healthz_def pool_select_def called_def thrown_def)

theorem healthz_reports_probe_witness:
  "fst (healthz mem
     \<lparr>req_method = GET, req_path = [''healthz''], params_id = None, query_id = None,
       body = None\<rparr> (start empty_db)) = \<lparr>status = 200, content = Some (JObj [(''ok'', JBool True)])\<rparr> \<and>
   fst (healthz (unreachable ''connect ECONNREFUSED'')
     \<lparr>req_method = GET, req_path = [''healthz''], params_id = None, query_id = None,
       body = None\<rparr> (start empty_db)) = \<lparr>status = 503, content = Some (JObj [(''ok'', JBool False)])\<rparr>"
  using
    healthz_reports_probe [of mem "start empty_db" empty_db
      "\<lparr>req_method = GET, req_path = [''healthz''], params_id = None, query_id = None,
        body = None\<rparr>", THEN conjunct1]
    healthz_reports_probe [of "unreachable ''connect ECONNREFUSED''" "start empty_db" empty_db
      "\<lparr>req_method = GET, req_path = [''healthz''], params_id = None, query_id = None,
        body = None\<rparr>" "''connect ECONNREFUSED''", THEN conjunct2]
  by (simp add: mem_def mem_select_def unreachable_def start_def json_response_def)

section \<open>Updating\<close>

text \<open>
  C4. An update with a resolved identifier and a name that is not empty sends the
  \<^verbatim>\<open>UPDATE\<close>. When it is rejected the response is 500. When it affects no row the response
  is 404. When it affects one row the handler reads the row again: the response is 200
  with \<^verbatim>\<open>success: true\<close> and the row read, or the identifier and the new name when no
  row comes back, and it is 500 when the second statement is rejected. Both variants do so.
\<close>

theorem updateUserHandler_result_policy:
  assumes "getId req = Inr (Some i)" and "bodyName req = Inr name" and "name \<noteq> []"
    and "h = updateUserHandler_000 \<or> h = updateUserHandler_001"
  shows
    "(modify drv (UpdateUser name i) (db w) = (Inl m, d1) \<longrightarrow>
        status (fst (h drv req w)) = 500 \<and>
        issued (snd (h drv req w)) = issued w @ [UpdateUser name i]) \<and>
     (modify drv (UpdateUser name i) (db w) = (Inr result, d1) \<and> affectedRows result = 0 \<longrightarrow>
        fst (h drv req w) = failure 404 ''Usuario no encontrado'' \<and>
        issued (snd (h drv req w)) = issued w @ [UpdateUser name i]) \<and>
     (modify drv (UpdateUser name i) (db w) = (Inr result, d1) \<and> affectedRows result = 1 \<and>
      select drv (SelectUserById i) d1 = (Inr rows, d2) \<longrightarrow>
        fst (h drv req w) =
          json_response 200
            [(''success'', JBool True), (''message'', JStr ''Usuario actualizado correctamente''),
             (''user'', (case rows of [] \<Rightarrow> JObj [(''id'', JNum i), (''name'', JStr name)]
                                     | r # _ \<Rightarrow> JObj r))] \<and>
        issued (snd (h drv req w)) = issued w @ [UpdateUser name i, SelectUserById i] \<and>
        db (snd (h drv req w)) = d2) \<and>
     (modify drv (UpdateUser name i) (db w) = (Inr result, d1) \<and> affectedRows result = 1 \<and>
      select drv (SelectUserById i) d1 = (Inl m, d2) \<longrightarrow>
        status (fst (h drv req w)) = 500)"
  using assms
  by (auto simp: updateUserHandler_000_def updateUserHandler_001_def updateUser_def
      pool_modify_def pool_select_def called_def thrown_def failure_def updated_def
      json_response_def)

theorem updateUserHandler_result_policy_witness:
  "fst (updateUserHandler_000 mem
     \<lparr>req_method = PUT, req_path = [''users'', ''5''], params_id = Some ''5'', query_id = None,
       body = Some (JObj [(''name'', JStr '' Bea '')])\<rparr>
     (start \<lparr>resources = [], resources_next = 1, users = [(5, ''Ana'')], users_next = 6,
              clock = 0\<rparr>)) =
     json_response 200
       [(''success'', JBool True), (''message'', JStr ''Usuario actualizado correctamente''),
        (''user'', JObj [(''id'', JNum 5), (''name'', JStr ''Bea'')])] \<and>
   fst (updateUserHandler_001 mem
     \<lparr>req_method = PATCH, req_path = [''users'', ''9''], params_id = Some ''9'', query_id = None,
       body = Some (JObj [(''name'', JStr '' Bea '')])\<rparr>
     (start \<lparr>resources = [], resources_next = 1, users = [(5, ''Ana'')], users_next = 6,
              clock = 0\<rparr>)) = failure 404 ''Usuario no encontrado'' \<and>
   status (fst (updateUserHandler_001 (unreachable ''connect ECONNREFUSED'')
     \<lparr>req_method = PUT, req_path = [''users'', ''5''], params_id = Some ''5'', query_id = None,
       body = Some (JObj [(''name'', JStr '' Bea '')])\<rparr>
     (start \<lparr>resources = [], resources_next = 1, users = [(5, ''Ana'')], users_next = 6,
              clock = 0\<rparr>))) = 500"
proof -
  let ?d = "\<lparr>resources = [], resources_next = 1, users = [(5, ''Ana'')], users_next = 6,
             clock = 0\<rparr>"
  let ?b = "Some (JObj [(''name'', JStr '' Bea '')])"
  let ?r5 = "\<lparr>req_method = PUT, req_path = [''users'', ''5''], params_id = Some ''5'',
              query_id = None, body = ?b\<rparr>"
  let ?r9 = "\<lparr>req_method = PATCH, req_path = [''users'', ''9''], params_id = Some ''9'',
              query_id = None, body = ?b\<rparr>"
  have id5: "getId ?r5 = Inr (Some 5)"
    by (subst getId_path_digit) (simp_all add: isDigit_def digitVal_def)
  have id9: "getId ?r9 = Inr (Some 9)"
    by (subst getId_path_digit) (simp_all add: isDigit_def digitVal_def)
  have n5: "bodyName ?r5 = Inr ''Bea''" and n9: "bodyName ?r9 = Inr ''Bea''"
    by (simp_all add: bodyName_def optProp_def trimOr_def trimOf_def trim_def isWhiteSpace_def)
  have ok: "fst (updateUserHandler_000 mem ?r5 (start ?d)) =
     json_response 200
       [(''success'', JBool True), (''message'', JStr ''Usuario actualizado correctamente''),
        (''user'', JObj [(''id'', JNum 5), (''name'', JStr ''Bea'')])]"
    using updateUserHandler_result_policy [OF id5 n5, of updateUserHandler_000 mem "start ?d"
        "''x''" "?d\<lparr>users := [(5, ''Bea'')]\<rparr>" "\<lparr>affectedRows = 1, insertId = 0\<rparr>"
        "[[(''id'', JNum 5), (''name'', JStr ''Bea'')]]" "?d\<lparr>users := [(5, ''Bea'')]\<rparr>"]
    by (simp add: mem_def mem_modify_def mem_select_def start_def user_row_def)
  have missing: "fst (updateUserHandler_001 mem ?r9 (start ?d)) = failure 404 ''Usuario no encontrado''"
    using updateUserHandler_result_policy [OF id9 n9, of updateUserHandler_001 mem "start ?d"
        "''x''" "?d" "\<lparr>affectedRows = 0, insertId = 0\<rparr>"]
    by (simp add: mem_def mem_modify_def start_def)
  have down: "status (fst (updateUserHandler_001 (unreachable ''connect ECONNREFUSED'') ?r5
      (start ?d))) = 500"
    using updateUserHandler_result_policy [OF id5 n5, of updateUserHandler_001
        "unreachable ''connect ECONNREFUSED''" "start ?d" "''connect ECONNREFUSED''" "?d"]
    by (simp add: unreachable_def start_def)
  show ?thesis using ok missing down by simp
qed

section \<open>Rejected statements\<close>

lemma resources_caught:
  "rejected (snd (listResources drv req w)) \<noteq> rejected w \<Longrightarrow>
     fst (listResources drv req w) = json_response 500 [(''message'', JStr ''Error al obtener los recursos'')] \<and>
     console (snd (listResources drv req w)) =
       logged (Some ''Error al obtener recursos:'') w (snd (listResources drv req w))"
  "rejected (snd (createResource drv req w)) \<noteq> rejected w \<Longrightarrow>
     fst (createResource drv req w) = json_response 500 [(''message'', JStr ''Error al crear el recurso'')] \<and>
     console (snd (createResource drv req w)) =
       logged (Some ''Error al crear recurso:'') w (snd (createResource drv req w))"
  "rejected (snd (deleteResource drv req w)) \<noteq> rejected w \<Longrightarrow>
     fst (deleteResource drv req w) = json_response 500 [(''message'', JStr ''Error al eliminar el recurso'')] \<and>
     console (snd (deleteResource drv req w)) =
       logged (Some ''Error al eliminar recurso:'') w (snd (deleteResource drv req w))"
  by (auto simp: listResources_def createResource_def deleteResource_def createResourceFailed_def
      pool_select_def pool_modify_def called_def thrown_def console_error_def logged_def Let_def
      split: prod.splits sum.splits option.splits json.splits if_splits)

lemma users_caught:
  "rejected (snd (createUser_000 drv req w)) \<noteq> rejected w \<Longrightarrow>
     fst (createUser_000 drv req w) = failure 500 ''Error al insertar usuario'' \<and>
     console (snd (createUser_000 drv req w)) = console w"
  "rejected (snd (createUser_001 drv req w)) \<noteq> rejected w \<Longrightarrow>
     fst (createUser_001 drv req w) = failure 500 ''Error interno'' \<and>
     console (snd (createUser_001 drv req w)) = console w"
  "rejected (snd (updateUser caught drv req w)) \<noteq> rejected w \<Longrightarrow>
     fst (updateUser caught drv req w) = failure 500 caught \<and>
     console (snd (updateUser caught drv req w)) = console w"
  "rejected (snd (deleteUser caught drv req w)) \<noteq> rejected w \<Longrightarrow>
     fst (deleteUser caught drv req w) = failure 500 caught \<and>
     console (snd (deleteUser caught drv req w)) = console w"
  "rejected (snd (healthz drv req w)) \<noteq> rejected w \<Longrightarrow>
     fst (healthz drv req w) = json_response 503 [(''ok'', JBool False)] \<and>
     console (snd (healthz drv req w)) = console w"
  "rejected (snd (listUsers_001 drv req w)) \<noteq> rejected w \<Longrightarrow>
     fst (listUsers_001 drv req w) = json_response 500 [(''error'', JStr ''Error interno'')] \<and>
     console (snd (listUsers_001 drv req w)) = console w"
  by (auto simp: createUser_000_def createUser_001_def updateUser_def deleteUser_def healthz_def
      listUsers_001_def pool_select_def pool_modify_def called_def thrown_def
      split: prod.splits sum.splits option.splits if_splits)

text \<open>
  C3, amended. When the driver rejects a statement of a handler, the client receives a
  response of the 500 class (503 from the health check, 500 from the others), and in every
  handler other than \<^verbatim>\<open>GET /users\<close> of part_000 that response is the fixed one of the
  handler: it does not depend on the error. The handlers of \<^verbatim>\<open>src/server.js\<close> log the
  error; the handlers of the users API, \<^verbatim>\<open>GET /users\<close> of part_000 among them, log
  nothing.
\<close>

theorem rejected_statement_generic_response:
  assumes "(h, r, label) \<in> set caught_responses"
    and "rejected (snd (h drv req w)) \<noteq> rejected w"
  shows "fst (h drv req w) = r \<and> 500 \<le> status r \<and> status r < 600 \<and>
         console (snd (h drv req w)) = logged label w (snd (h drv req w)) \<and>
         (rejected (snd (listUsers_000 drv req w)) \<noteq> rejected w \<longrightarrow>
            status (fst (listUsers_000 drv req w)) = 500) \<and>
         console (snd (listUsers_000 drv req w)) = console w"
proof -
  have first: "(rejected (snd (listUsers_000 drv req w)) \<noteq> rejected w \<longrightarrow>
            status (fst (listUsers_000 drv req w)) = 500) \<and>
         console (snd (listUsers_000 drv req w)) = console w"
    by (simp add: listUsers_000_def called_def json_response_def split: prod.splits sum.splits)
  from assms(1) consider
      "h = listResources" "r = json_response 500 [(''message'', JStr ''Error al obtener los recursos'')]"
        "label = Some ''Error al obtener recursos:''"
    | "h = createResource" "r = json_response 500 [(''message'', JStr ''Error al crear el recurso'')]"
        "label = Some ''Error al crear recurso:''"
    | "h = deleteResource" "r = json_response 500 [(''message'', JStr ''Error al eliminar el recurso'')]"
        "label = Some ''Error al eliminar recurso:''"
    | "h = createUser_000" "r = failure 500 ''Error al insertar usuario''" "label = None"
    | "h = updateUserHandler_000" "r = failure 500 ''Error al actualizar usuario''" "label = None"
    | "h = deleteUser_000" "r = failure 500 ''Error al eliminar usuario''" "label = None"
    | "h = healthz" "r = json_response 503 [(''ok'', JBool False)]" "label = None"
    | "h = listUsers_001" "r = json_response 500 [(''error'', JStr ''Error interno'')]" "label = None"
    | "h = createUser_001" "r = failure 500 ''Error interno''" "label = None"
    | "h = updateUserHandler_001" "r = failure 500 ''Error interno''" "label = None"
    | "h = deleteUser_001" "r = failure 500 ''Error interno''" "label = None"
    unfolding caught_responses_def by auto
  then show ?thesis
  proof cases
    case 1
    then show ?thesis using first assms(2) resources_caught(1) [of drv req w]
      by (simp add: json_response_def)
  next
    case 2
    then show ?thesis using first assms(2) resources_caught(2) [of drv req w]
      by (simp add: json_response_def)
  next
    case 3
    then show ?thesis using first assms(2) resources_caught(3) [of drv req w]
      by (simp add: json_response_def)
  next
    case 4
    then show ?thesis using first assms(2) users_caught(1) [of drv req w]
      by (simp add: failure_def json_response_def logged_def)
  next
    case 5
    then show ?thesis using first assms(2) users_caught(3) [of "''Error al actualizar usuario''" drv req w]
      by (simp add: updateUserHandler_000_def failure_def json_response_def logged_def)
  next
    case 6
    then show ?thesis using first assms(2) users_caught(4) [of "''Error al eliminar usuario''" drv req w]
      by (simp add: deleteUser_000_def failure_def json_response_def logged_def)
  next
    case 7
    then show ?thesis using first assms(2) users_caught(5) [of drv req w]
      by (simp add: json_response_def logged_def)
  next
    case 8
    then show ?thesis using first assms(2) users_caught(6) [of drv req w]
      by (simp add: json_response_def logged_def)
  next
    case 9
    then show ?thesis using first assms(2) users_caught(2) [of drv req w]
      by (simp add: failure_def json_response_def logged_def)
  next
    case 10
    then show ?thesis using first assms(2) users_caught(3) [of "''Error interno''" drv req w]
      by (simp add: updateUserHandler_001_def failure_def json_response_def logged_def)
  next
    case 11
    then show ?thesis using first assms(2) users_caught(4) [of "''Error interno''" drv req w]
      by (simp add: deleteUser_001_def failure_def json_response_def logged_def)
  qed
qed

theorem rejected_statement_generic_response_witness:
  "fst (listUsers_001 (unreachable ''connect ECONNREFUSED'')
     \<lparr>req_method = GET, req_path = [''users''], params_id = None, query_id = None, body = None\<rparr>
     (start empty_db)) = json_response 500 [(''error'', JStr ''Error interno'')] \<and>
   console (snd (listResources (unreachable ''connect ECONNREFUSED'')
     \<lparr>req_method = GET, req_path = [''api'', ''resources''], params_id = None, query_id = None,
       body = None\<rparr>
     (start empty_db))) = [(''Error al obtener recursos:'', QueryError ''connect ECONNREFUSED'')]"
proof -
  let ?drv = "unreachable ''connect ECONNREFUSED'' :: memdb driver"
  let ?u = "\<lparr>req_method = GET, req_path = [''users''], params_id = None, query_id = None,
             body = None\<rparr>"
  let ?r = "\<lparr>req_method = GET, req_path = [''api'', ''resources''], params_id = None,
             query_id = None, body = None\<rparr>"
  have users: "rejected (snd (listUsers_001 ?drv ?u (start empty_db))) = [(SelectAllUsers, ''connect ECONNREFUSED'')]"
    by (simp add: listUsers_001_def pool_select_def called_def thrown_def unreachable_def start_def)
  have res: "rejected (snd (listResources ?drv ?r (start empty_db))) = [(SelectAllResources, ''connect ECONNREFUSED'')]"
    by (simp add: listResources_def pool_select_def called_def thrown_def unreachable_def
        start_def console_error_def)
  have a: "fst (listUsers_001 ?drv ?u (start empty_db)) = json_response 500 [(''error'', JStr ''Error interno'')]"
    using rejected_statement_generic_response [of listUsers_001
        "json_response 500 [(''error'', JStr ''Error interno'')]" None ?drv ?u "start empty_db"]
      users
    by (simp add: caught_responses_def start_def)
  have b: "console (snd (listResources ?drv ?r (start empty_db))) =
      logged (Some ''Error al obtener recursos:'') (start empty_db)
        (snd (listResources ?drv ?r (start empty_db)))"
    using rejected_statement_generic_response [of listResources
        "json_response 500 [(''message'', JStr ''Error al obtener los recursos'')]"
        "Some ''Error al obtener recursos:''" ?drv ?r "start empty_db"]
      res
    by (simp add: caught_responses_def start_def)
  show ?thesis using a b res by (simp add: logged_def start_def)
qed

text \<open>
  C3 as stated fails twice when the datastore cannot be reached. \<^verbatim>\<open>GET /users\<close> of
  part_001 logs nothing, so the detail is not logged; \<^verbatim>\<open>GET /users\<close> of part_000 sends the
  message of the error to the client.
\<close>

theorem rejected_statement_counterexample:
  "console (snd (listUsers_001 (unreachable ''connect ECONNREFUSED'')
     \<lparr>req_method = GET, req_path = [''users''], params_id = None, query_id = None, body = None\<rparr>
     (start empty_db))) = [] \<and>
   fst (listUsers_000 (unreachable ''connect ECONNREFUSED'')
     \<lparr>req_method = GET, req_path = [''users''], params_id = None, query_id = None, body = None\<rparr>
     (start empty_db)) =
     json_response 500 [(''error'', JStr (msg_error_de_conexion @ ''connect ECONNREFUSED''))]"
  by (simp add: listUsers_001_def listUsers_000_def pool_select_def called_def thrown_def
      unreachable_def start_def messageOrError_def)

section \<open>Deleting\<close>

text \<open>What holds of the deletes: an identifier that \<^verbatim>\<open>getId\<close> does not resolve is answered
  400 and nothing is sent; otherwise one row affected is a success, any other count is 404
  for a user, and a rejection is 500.\<close>

lemma deleteUser_result_policy:
  "(getId req = Inr None \<longrightarrow> deleteUser caught drv req w = (failure 400 ''ID no proporcionado'', w)) \<and>
   (getId req = Inr (Some i) \<and> modify drv (DeleteUser i) (db w) = (Inr result, d1) \<longrightarrow>
      fst (deleteUser caught drv req w) =
        (if affectedRows result = 1 then success ''Usuario eliminado correctamente''
         else failure 404 ''Usuario no encontrado'')) \<and>
   (getId req = Inr (Some i) \<and> modify drv (DeleteUser i) (db w) = (Inl m, d1) \<longrightarrow>
      fst (deleteUser caught drv req w) = failure 500 caught)"
  by (simp add: deleteUser_def pool_modify_def called_def thrown_def)

text \<open>An update whose identifier is not resolved is answered 400 as well, and nothing is
  sent.\<close>

lemma updateUser_unresolved:
  "getId req = Inr None \<Longrightarrow> bodyName req = Inr name \<Longrightarrow>
   updateUser caught drv req w = (failure 400 ''ID no proporcionado'', w)"
  by (simp add: updateUser_def)

lemma deleteResource_result_policy:
  "(parseIntStr p = NaN \<longrightarrow>
      deleteResource drv (req\<lparr>params_id := Some p\<rparr>) w =
        (json_response 400 [(''message'', JStr msg_id_invalido)], w)) \<and>
   (parseIntStr p = Fin i \<and> modify drv (DeleteResource (Fin i)) (db w) = (Inr result, d1) \<longrightarrow>
      fst (deleteResource drv (req\<lparr>params_id := Some p\<rparr>) w) =
        (if affectedRows result = 0 then json_response 404 [(''message'', JStr ''Recurso no encontrado'')]
         else json_response 200 [(''message'', JStr ''Recurso eliminado correctamente'')]))"
  by (simp add: deleteResource_def pool_modify_def called_def thrown_def)

text \<open>
  C5 fails in \<^verbatim>\<open>src/server.js\<close> for an identifier of 310 digits: \<^verbatim>\<open>parseInt\<close> gives
  \<^verbatim>\<open>Infinity\<close>, which is not an integer and not \<^verbatim>\<open>NaN\<close> either, so the check
  \<^verbatim>\<open>Number.isNaN(id)\<close> lets it through: the \<^verbatim>\<open>DELETE\<close> is sent with \<^verbatim>\<open>Infinity\<close>, whatever
  the datastore, and the answer is not 400. \<^verbatim>\<open>getId\<close> of the users API, which tests
  \<^verbatim>\<open>Number.isInteger\<close>, rejects the same identifier.
\<close>

theorem deleteResource_infinite_id:
  "issued (snd (deleteResource drv
      \<lparr>req_method = DELETE, req_path = [''api'', ''resources'', tooLong],
        params_id = Some tooLong, query_id = None, body = None\<rparr> w))
     = issued w @ [DeleteResource PosInf] \<and>
   status (fst (deleteResource drv
      \<lparr>req_method = DELETE, req_path = [''api'', ''resources'', tooLong],
        params_id = Some tooLong, query_id = None, body = None\<rparr> w)) \<noteq> 400 \<and>
   \<not> isInteger (parseIntStr tooLong) \<and>
   getId \<lparr>req_method = DELETE, req_path = [''users'', tooLong],
          params_id = Some tooLong, query_id = None, body = None\<rparr> = Inr None"
proof -
  have inf: "parseIntStr tooLong = PosInf"
    using parseIntStr_tooLong [of "[]"] by simp
  have "getId \<lparr>req_method = DELETE, req_path = [''users'', tooLong],
          params_id = Some tooLong, query_id = None, body = None\<rparr> = Inr None"
    by (subst getId_string [of _ tooLong]) (simp_all add: rawId_def coalesce_def nullish_def inf)
  then show ?thesis
    by (simp add: deleteResource_def inf pool_modify_def called_def thrown_def json_response_def
        console_error_def split: prod.splits sum.splits)
qed

section \<open>The two verbs of the update\<close>

lemma bound_ignores_method:
  "bound (updateUser caught) drv (req\<lparr>req_method := m\<rparr>) w = bound (updateUser caught) drv req w"
proof -
  have "updateUser caught drv (req\<lparr>req_method := m, params_id := pid\<rparr>) w =
      updateUser caught drv (req\<lparr>params_id := pid\<rparr>) w" for pid
  proof -
    have g: "getId (req\<lparr>req_method := m, params_id := pid\<rparr>) = getId (req\<lparr>params_id := pid\<rparr>)"
      by (simp add: getId_def rawId_def)
    have b: "bodyName (req\<lparr>req_method := m, params_id := pid\<rparr>) = bodyName (req\<lparr>params_id := pid\<rparr>)"
      by (simp add: bodyName_def)
    show ?thesis unfolding updateUser_def g b ..
  qed
  then show ?thesis by (simp add: bound_def split: option.splits)
qed

text \<open>
  C9. In both variants \<^verbatim>\<open>PUT\<close> and \<^verbatim>\<open>PATCH\<close> on \<^verbatim>\<open>/users/:id?\<close> are bound to the one
  \<^verbatim>\<open>updateUserHandler\<close>, which does not read the verb: for every request, driver and
  world, the two verbs give the same response and the same world.
\<close>

theorem put_patch_same_handler:
  "app_000 drv (req\<lparr>req_method := PUT\<rparr>) w = bound updateUserHandler_000 drv req w \<and>
   app_000 drv (req\<lparr>req_method := PATCH\<rparr>) w = bound updateUserHandler_000 drv req w \<and>
   app_001 drv (req\<lparr>req_method := PUT\<rparr>) w = bound updateUserHandler_001 drv req w \<and>
   app_001 drv (req\<lparr>req_method := PATCH\<rparr>) w = bound updateUserHandler_001 drv req w \<and>
   app_000 drv (req\<lparr>req_method := PUT\<rparr>) w = app_000 drv (req\<lparr>req_method := PATCH\<rparr>) w \<and>
   app_001 drv (req\<lparr>req_method := PUT\<rparr>) w = app_001 drv (req\<lparr>req_method := PATCH\<rparr>) w"
  by (simp add: app_000_def app_001_def updateUserHandler_000_def updateUserHandler_001_def
      bound_ignores_method)

end
